theory Spec2Isabelle
  imports Main "HOL-Library.Sublist"
begin

section \<open>Values crossing the boundary between host and remote context\<close>

text \<open>
  The client of \<^verbatim>\<open>src/Client.js\<close> is dynamically typed. The values its
  functions inspect are modelled by one datatype: the JavaScript primitives, plain
  objects and arrays, and one constructor for each class that the source tests with
  \<^verbatim>\<open>instanceof\<close> (\<^verbatim>\<open>MessageMedia\<close>, \<^verbatim>\<open>Location\<close>,
  \<^verbatim>\<open>Contact\<close>, \<^verbatim>\<open>Buttons\<close>, \<^verbatim>\<open>List\<close>). The classes
  live in \<^verbatim>\<open>./structures\<close>; each constructor carries the fields that
  \<^verbatim>\<open>Client.js\<close> reads: \<^verbatim>\<open>contact.id._serialized\<close>,
  \<^verbatim>\<open>buttons.body\<close>, \<^verbatim>\<open>buttons.type\<close>,
  \<^verbatim>\<open>attachment.mimetype\<close>.
\<close>

datatype jsval =
    Undefined
  | Null
  | Bool bool
  | Str string
  | Num int
  | Obj "(string \<times> jsval) list"
  | Arr "jsval list"
  | MessageMedia string string
  | Location int int
  | Contact string
  | Buttons jsval string
  | ListMsg string

text \<open>Errors that the modelled code can raise or receive.\<close>

datatype js_error =
    TypeError
  | ReferenceError string
  | Error string
  | RemoteError "string option"

text \<open>JavaScript truthiness, as used by \<^verbatim>\<open>if (x)\<close> and \<^verbatim>\<open>x ? a : b\<close>.\<close>

fun truthy :: "jsval \<Rightarrow> bool" where
  "truthy Undefined = False"
| "truthy Null = False"
| "truthy (Bool b) = b"
| "truthy (Str s) = (s \<noteq> [])"
| "truthy (Num n) = (n \<noteq> 0)"
| "truthy _ = True"

section \<open>Raw message records and public events\<close>

text \<open>
  A message record as serialised by the remote context. \<^verbatim>\<open>msg.id\<close> is the
  record \<open>msg_id\<close> with the fields \<^verbatim>\<open>fromMe\<close>, \<^verbatim>\<open>id\<close> (here
  \<open>id_id\<close>) and \<^verbatim>\<open>_serialized\<close>; \<open>msg_body\<close> stands for the rest of the
  record's content.
\<close>

record MsgKey =
  fromMe :: bool
  id_id :: string
  id_serialized :: string

record RawMsg =
  isNewMsg :: bool
  msg_type :: string
  subtype :: "string option"
  msg_id :: MsgKey
  msg_body :: string

text \<open>
  The public events. The constructors are the keys of the \<^verbatim>\<open>Events\<close> table
  of \<^verbatim>\<open>./util/Constants\<close> that \<^verbatim>\<open>Client.js\<close> passes to
  \<^verbatim>\<open>this.emit\<close>; the doc comment above each \<^verbatim>\<open>emit\<close> gives the public
  name: \<open>MESSAGE_CREATE\<close> is \<^verbatim>\<open>message_create\<close>, \<open>MESSAGE_RECEIVED\<close> is
  \<^verbatim>\<open>message\<close>, \<open>MESSAGE_REVOKED_EVERYONE\<close> is
  \<^verbatim>\<open>message_revoke_everyone\<close>, \<open>STATE_CHANGED\<close> is
  \<^verbatim>\<open>change_state\<close>, \<open>QR_RECEIVED\<close> is \<^verbatim>\<open>qr\<close>. The arguments are
  the arguments of the \<^verbatim>\<open>emit\<close> call; \<^verbatim>\<open>new Message(this, msg)\<close> and
  \<^verbatim>\<open>new GroupNotification(this, msg)\<close> are represented by the record they wrap.
\<close>

datatype event =
    QR_RECEIVED string
  | AUTHENTICATED jsval
  | READY jsval
  | MESSAGE_CREATE RawMsg
  | MESSAGE_RECEIVED RawMsg
  | MESSAGE_REVOKED_EVERYONE RawMsg "RawMsg option"
  | GROUP_JOIN RawMsg
  | GROUP_LEAVE RawMsg
  | GROUP_UPDATE RawMsg
  | STATE_CHANGED string
  | DISCONNECTED string
  | PAGE_CLOSED

section \<open>The event bridge: message-added\<close>

text \<open>\<^verbatim>\<open>onAddMessageEvent\<close> (Client.js, 268-315): the events it emits, in order.\<close>

definition onAddMessageEvent :: "RawMsg \<Rightarrow> event list" where
  "onAddMessageEvent msg =
     (if \<not> isNewMsg msg then []
      else if msg_type msg = ''gp2'' then
        (if subtype msg = Some ''add'' \<or> subtype msg = Some ''invite'' then [GROUP_JOIN msg]
         else if subtype msg = Some ''remove'' \<or> subtype msg = Some ''leave'' then [GROUP_LEAVE msg]
         else [GROUP_UPDATE msg])
      else MESSAGE_CREATE msg # (if fromMe (msg_id msg) then [] else [MESSAGE_RECEIVED msg]))"

text \<open>
  The wiring of \<^verbatim>\<open>window.Store.Msg.on('add', ...)\<close> (Client.js, 442). The
  serialiser \<^verbatim>\<open>window.WWebJS.getMessageModel\<close> is injected from another file
  and is a parameter here.
\<close>

definition Store_Msg_on_add :: "(RawMsg \<Rightarrow> RawMsg) \<Rightarrow> RawMsg \<Rightarrow> event list" where
  "Store_Msg_on_add getMessageModel msg =
     (if isNewMsg msg then onAddMessageEvent (getMessageModel msg) else [])"

definition is_group_event :: "event \<Rightarrow> bool" where
  "is_group_event e = (case e of GROUP_JOIN _ \<Rightarrow> True | GROUP_LEAVE _ \<Rightarrow> True
                        | GROUP_UPDATE _ \<Rightarrow> True | _ \<Rightarrow> False)"

definition is_message_event :: "event \<Rightarrow> bool" where
  "is_message_event e = (case e of MESSAGE_CREATE _ \<Rightarrow> True | MESSAGE_RECEIVED _ \<Rightarrow> True
                          | _ \<Rightarrow> False)"

section \<open>The event bridge: message-changed and revoke\<close>

text \<open>
  \<^verbatim>\<open>let last_message;\<close> (Client.js, 317) is the single-slot cache; \<open>None\<close> is
  \<^verbatim>\<open>undefined\<close>. \<^verbatim>\<open>onChangeMessageEvent\<close> (340-346) returns the new slot.
\<close>

definition onChangeMessageEvent :: "RawMsg \<Rightarrow> RawMsg option \<Rightarrow> RawMsg option" where
  "onChangeMessageEvent msg last_message =
     (if msg_type msg \<noteq> ''revoked'' then Some msg else last_message)"

text \<open>\<^verbatim>\<open>onChangeMessageTypeEvent\<close> (319-338) reads the slot and emits.\<close>

definition onChangeMessageTypeEvent :: "RawMsg \<Rightarrow> RawMsg option \<Rightarrow> event list" where
  "onChangeMessageTypeEvent msg last_message =
     (if msg_type msg = ''revoked'' then
        (let revoked_msg =
               (case last_message of
                  None \<Rightarrow> None
                | Some l \<Rightarrow> if id_id (msg_id msg) = id_id (msg_id l) then Some l else None)
         in [MESSAGE_REVOKED_EVERYONE msg revoked_msg])
      else [])"

section \<open>Effects of the host-side callbacks\<close>

text \<open>
  What a callback does besides returning: it emits a public event, closes the browser
  (\<^verbatim>\<open>destroy()\<close> is \<^verbatim>\<open>await this.pupBrowser.close()\<close>), arms a timer
  whose task is the takeover request, or writes a line with \<^verbatim>\<open>console.log\<close>.
\<close>

datatype effect =
    Emit event
  | BrowserClose
  | SetTimeoutTakeover int
  | ConsoleLog string

section \<open>The QR retry counter\<close>

text \<open>
  \<^verbatim>\<open>qrChanged\<close> (Client.js, 165-175). \<open>qrMaxRetries\<close> is
  \<^verbatim>\<open>this.options.qrMaxRetries\<close>; \<open>qrRetries\<close> is the counter declared beside
  the callback. The result is the new counter and the effects of this call.
\<close>

definition qrChanged :: "int \<Rightarrow> string \<Rightarrow> nat \<Rightarrow> nat \<times> effect list" where
  "qrChanged qrMaxRetries qr qrRetries =
     (if qrMaxRetries > 0 then
        (let qrRetries' = qrRetries + 1 in
         if int qrRetries' > qrMaxRetries
         then (qrRetries', [Emit (QR_RECEIVED qr),
                            Emit (DISCONNECTED ''Max qrcode retries reached''),
                            BrowserClose])
         else (qrRetries', [Emit (QR_RECEIVED qr)]))
      else (qrRetries, [Emit (QR_RECEIVED qr)]))"

text \<open>
  The page calls \<^verbatim>\<open>window.qrChanged\<close> once with the current token and again
  on every token change (Client.js, 177-203). \<open>qrCalls\<close> runs the callback on the
  tokens in order and returns the final counter with the effects of each call.
\<close>

fun qrCalls :: "int \<Rightarrow> string list \<Rightarrow> nat \<Rightarrow> nat \<times> effect list list" where
  "qrCalls qrMaxRetries [] qrRetries = (qrRetries, [])"
| "qrCalls qrMaxRetries (qr # qrs) qrRetries =
     (let (n, effs) = qrChanged qrMaxRetries qr qrRetries;
          (n', rest) = qrCalls qrMaxRetries qrs n
      in (n', effs # rest))"

definition is_disconnected :: "effect \<Rightarrow> bool" where
  "is_disconnected eff = (case eff of Emit (DISCONNECTED _) \<Rightarrow> True | _ \<Rightarrow> False)"

section \<open>The connection-state handler\<close>

text \<open>
  The \<^verbatim>\<open>WAState\<close> table is in \<^verbatim>\<open>./util/Constants\<close>. The handler reads
  five of its entries, which are parameters here.
\<close>

record WAState =
  CONFLICT :: string
  CONNECTED :: string
  OPENING :: string
  PAIRING :: string
  TIMEOUT :: string

text \<open>The two options that the handler reads.\<close>

record TakeoverOptions =
  takeoverOnConflict :: bool
  takeoverTimeoutMs :: int

text \<open>
  \<^verbatim>\<open>ACCEPTED_STATES\<close> after the optional \<^verbatim>\<open>push\<close> (Client.js, 398-402).
\<close>

definition ACCEPTED_STATES :: "WAState \<Rightarrow> TakeoverOptions \<Rightarrow> string list" where
  "ACCEPTED_STATES wa options =
     [CONNECTED wa, OPENING wa, PAIRING wa, TIMEOUT wa]
       @ (if takeoverOnConflict options then [CONFLICT wa] else [])"

text \<open>\<^verbatim>\<open>onAppStateChangedEvent\<close> (Client.js, 389-421).\<close>

definition onAppStateChangedEvent :: "WAState \<Rightarrow> TakeoverOptions \<Rightarrow> string \<Rightarrow> effect list" where
  "onAppStateChangedEvent wa options state =
     [Emit (STATE_CHANGED state)]
       @ (if takeoverOnConflict options \<and> state = CONFLICT wa
          then [SetTimeoutTakeover (takeoverTimeoutMs options)] else [])
       @ (if state \<notin> set (ACCEPTED_STATES wa options) then [Emit (DISCONNECTED state)] else [])"

text \<open>
  \<^verbatim>\<open>e?.message\<close>: the message of a rejection, when it has one. The wording of
  a TypeError's message is not modelled.
\<close>

fun error_message :: "js_error \<Rightarrow> string option" where
  "error_message TypeError = Some ''TypeError''"
| "error_message (ReferenceError x) = Some (x @ '' is not defined'')"
| "error_message (Error m) = Some m"
| "error_message (RemoteError m) = m"

text \<open>
  The timer's task (Client.js, 404-408): the takeover request is evaluated in the page
  and its outcome is the argument; a rejection is caught and logged, with
  \<^verbatim>\<open>undefined\<close> printed for a missing message. The result is the pair of the
  task's own outcome and its effects.
\<close>

definition takeover_task :: "js_error + jsval \<Rightarrow> (js_error + unit) \<times> effect list" where
  "takeover_task outcome =
     (case outcome of
        Inr _ \<Rightarrow> (Inr (), [])
      | Inl e \<Rightarrow> (Inr (), [ConsoleLog (''WA conflict evaluate error '' @
                     (case error_message e of Some m \<Rightarrow> m | None \<Rightarrow> ''undefined''))]))"

text \<open>The table of the library, for concrete runs.\<close>

definition WAState_table :: WAState where
  "WAState_table = \<lparr>CONFLICT = ''CONFLICT'', CONNECTED = ''CONNECTED'', OPENING = ''OPENING'',
                     PAIRING = ''PAIRING'', TIMEOUT = ''TIMEOUT''\<rparr>"

section \<open>Pinning a chat\<close>

text \<open>
  \<^verbatim>\<open>window.Store.Chat.models\<close> is the chat list of the remote store, a list of
  chats with an identity and a pin flag; \<^verbatim>\<open>window.Store.Chat.get\<close> looks a chat
  up by its identity and yields \<^verbatim>\<open>undefined\<close> (\<open>None\<close>) when there is none.
\<close>

record Chat =
  chat_id :: string
  pin :: bool

definition Store_Chat_get :: "Chat list \<Rightarrow> string \<Rightarrow> Chat option" where
  "Store_Chat_get models chatId = find (\<lambda>c. chat_id c = chatId) models"

text \<open>The remote command \<^verbatim>\<open>window.Store.Cmd.pinChat(chat, flag)\<close>.\<close>

datatype command = Cmd_pinChat Chat bool

definition MAX_PIN_COUNT :: nat where
  "MAX_PIN_COUNT = 3"

text \<open>
  The function that \<^verbatim>\<open>pinChat\<close> evaluates in the page (Client.js, 803-819).
  \<open>cmd\<close> is the outcome of the remote command, should it be issued. The result is
  the returned value, or the error thrown, and the commands issued.
  \<^verbatim>\<open>chat.pin\<close> on a missing chat is a TypeError.
\<close>

definition pinChat :: "Chat list \<Rightarrow> (js_error + unit) \<Rightarrow> string \<Rightarrow> (js_error + bool) \<times> command list" where
  "pinChat models cmd chatId =
     (case Store_Chat_get models chatId of
        None \<Rightarrow> (Inl TypeError, [])
      | Some chat \<Rightarrow>
          if pin chat then (Inr True, [])
          else if length models > MAX_PIN_COUNT \<and> pin (models ! (MAX_PIN_COUNT - 1))
          then (Inr False, [])
          else (case cmd of
                  Inl e \<Rightarrow> (Inl e, [Cmd_pinChat chat True])
                | Inr _ \<Rightarrow> (Inr True, [Cmd_pinChat chat True])))"

text \<open>
  The order the remote store keeps its chat list in: the pinned chats come first.
\<close>

definition pinned_first :: "Chat list \<Rightarrow> bool" where
  "pinned_first models = (models = filter pin models @ filter (\<lambda>c. \<not> pin c) models)"

section \<open>Looking up a number\<close>

text \<open>
  \<^verbatim>\<open>getNumberId\<close> (Client.js, 925-939). \<open>pupPage\<close> is \<open>None\<close> while
  \<^verbatim>\<open>this.pupPage\<close> is \<^verbatim>\<open>null\<close>, and otherwise the outcome of the round
  trip for each identity; \<^verbatim>\<open>endsWith\<close> and \<^verbatim>\<open>startsWith\<close> are
  \<open>suffix\<close> and \<open>prefix\<close>. \<open>numberId_of\<close> is the rewriting of a string
  argument in the lines 926-931.
\<close>

definition numberId_of :: "string \<Rightarrow> string" where
  "numberId_of number =
     (let number1 = (if \<not> suffix ''@c.us'' number then number @ ''@c.us'' else number)
      in if \<not> prefix ''+'' number1 then ''+'' @ number1 else number1)"

text \<open>
  \<^verbatim>\<open>this.pupPage.evaluate(f, number)\<close>: on a \<^verbatim>\<open>null\<close> page the
  property access throws a TypeError, otherwise the round trip decides.
\<close>

definition pupPage_evaluate :: "(string \<Rightarrow> js_error + jsval) option \<Rightarrow> string \<Rightarrow> js_error + jsval" where
  "pupPage_evaluate pupPage arg =
     (case pupPage of None \<Rightarrow> Inl TypeError | Some evaluate \<Rightarrow> evaluate arg)"

text \<open>
  The argument is any value. \<^verbatim>\<open>number.endsWith('@c.us')\<close> stands before the
  \<^verbatim>\<open>try\<close> block: on a value that is not a string it throws a TypeError
  (\<^verbatim>\<open>undefined\<close> and \<^verbatim>\<open>null\<close> have no properties, no other modelled
  value has an \<^verbatim>\<open>endsWith\<close> method), which nothing catches. Only the round trip
  is inside the \<^verbatim>\<open>try\<close> block, whose \<^verbatim>\<open>catch\<close> returns
  \<^verbatim>\<open>null\<close>.
\<close>

definition getNumberId :: "(string \<Rightarrow> js_error + jsval) option \<Rightarrow> jsval \<Rightarrow> js_error + jsval" where
  "getNumberId pupPage number =
     (case number of
        Str s \<Rightarrow>
          (case pupPage_evaluate pupPage (numberId_of s) of
             Inl _ \<Rightarrow> Inr Null
           | Inr v \<Rightarrow> Inr v)
      | _ \<Rightarrow> Inl TypeError)"

section \<open>Resolving the content of an outgoing message\<close>

text \<open>
  \<^verbatim>\<open>x instanceof C\<close> for the classes of \<^verbatim>\<open>./structures\<close>.
  \<^verbatim>\<open>Array.isArray(x)\<close> is the case \<open>Arr\<close> of a case distinction.
\<close>

fun instanceof_MessageMedia :: "jsval \<Rightarrow> bool" where
  "instanceof_MessageMedia (MessageMedia mimetype data) = True"
| "instanceof_MessageMedia _ = False"

fun instanceof_Location :: "jsval \<Rightarrow> bool" where
  "instanceof_Location (Location latitude longitude) = True"
| "instanceof_Location _ = False"

fun instanceof_Contact :: "jsval \<Rightarrow> bool" where
  "instanceof_Contact (Contact serialized) = True"
| "instanceof_Contact _ = False"

fun instanceof_Buttons :: "jsval \<Rightarrow> bool" where
  "instanceof_Buttons (Buttons body type) = True"
| "instanceof_Buttons _ = False"

fun instanceof_List :: "jsval \<Rightarrow> bool" where
  "instanceof_List (ListMsg title) = True"
| "instanceof_List _ = False"

text \<open>
  Property access \<^verbatim>\<open>x.k\<close>: a TypeError on \<^verbatim>\<open>undefined\<close> and
  \<^verbatim>\<open>null\<close>, the stored value on an object, the modelled fields on a class
  instance, and \<^verbatim>\<open>undefined\<close> for a property that is not there.
\<close>

fun get_prop :: "jsval \<Rightarrow> string \<Rightarrow> js_error + jsval" where
  "get_prop Undefined k = Inl TypeError"
| "get_prop Null k = Inl TypeError"
| "get_prop (Obj kvs) k = Inr (case map_of kvs k of Some v \<Rightarrow> v | None \<Rightarrow> Undefined)"
| "get_prop (Contact serialized) k =
     Inr (if k = ''id'' then Obj [(''_serialized'', Str serialized)] else Undefined)"
| "get_prop (MessageMedia mimetype data) k =
     Inr (if k = ''mimetype'' then Str mimetype else if k = ''data'' then Str data else Undefined)"
| "get_prop (Buttons body type) k =
     Inr (if k = ''body'' then body else if k = ''type'' then Str type else Undefined)"
| "get_prop _ k = Inr Undefined"

text \<open>\<^verbatim>\<open>contact => contact.id._serialized\<close>\<close>

definition contact_id_serialized :: "jsval \<Rightarrow> js_error + jsval" where
  "contact_id_serialized contact =
     (case get_prop contact ''id'' of
        Inl e \<Rightarrow> Inl e
      | Inr i \<Rightarrow> get_prop i ''_serialized'')"

text \<open>
  \<^verbatim>\<open>xs.map(contact => contact.id._serialized)\<close>: the first element that
  throws ends the map.
\<close>

fun map_id_serialized :: "jsval list \<Rightarrow> js_error + jsval list" where
  "map_id_serialized [] = Inr []"
| "map_id_serialized (x # xs) =
     (case contact_id_serialized x of
        Inl e \<Rightarrow> Inl e
      | Inr v \<Rightarrow> (case map_id_serialized xs of Inl e \<Rightarrow> Inl e | Inr vs \<Rightarrow> Inr (v # vs)))"

text \<open>
  The options of \<^verbatim>\<open>sendMessage\<close> that the resolution reads; an option that is
  not given is \<open>Undefined\<close>, and \<open>extra\<close> lists the properties of
  \<^verbatim>\<open>options.extra\<close> (none when it is not given).
\<close>

record MessageSendOptions =
  linkPreview :: jsval
  sendAudioAsVoice :: jsval
  sendVideoAsGif :: jsval
  sendMediaAsSticker :: jsval
  sendMediaAsDocument :: jsval
  caption :: jsval
  quotedMessageId :: jsval
  parseVCards :: jsval
  mentions :: jsval
  media :: jsval
  extra :: "(string \<times> jsval) list"

text \<open>
  The internal options record is an object; reading a property that was never set gives
  \<open>Undefined\<close>. \<open>spread\<close> is \<^verbatim>\<open>...options.extra\<close>.
\<close>

type_synonym internalOptions = "string \<Rightarrow> jsval"

fun spread :: "(string \<times> jsval) list \<Rightarrow> internalOptions \<Rightarrow> internalOptions" where
  "spread [] obj = obj"
| "spread ((k, v) # kvs) obj = spread kvs (obj(k := v))"

text \<open>The object literal of \<^verbatim>\<open>sendMessage\<close> (Client.js, 538-549).\<close>

definition sendMessage_internalOptions :: "MessageSendOptions \<Rightarrow> js_error + internalOptions" where
  "sendMessage_internalOptions options =
     (case (case mentions options of Arr xs \<Rightarrow> map_id_serialized xs | _ \<Rightarrow> Inr []) of
        Inl e \<Rightarrow> Inl e
      | Inr mentionedJidList \<Rightarrow>
          Inr (spread (extra options)
                ((\<lambda>_. Undefined)
                   (''linkPreview'' := (if truthy (linkPreview options) then Bool True else Undefined),
                    ''sendAudioAsVoice'' := sendAudioAsVoice options,
                    ''sendVideoAsGif'' := sendVideoAsGif options,
                    ''sendMediaAsSticker'' := sendMediaAsSticker options,
                    ''sendMediaAsDocument'' := sendMediaAsDocument options,
                    ''caption'' := caption options,
                    ''quotedMessageId'' := quotedMessageId options,
                    ''parseVCards'' := Bool (parseVCards options \<noteq> Bool False),
                    ''mentionedJidList'' := Arr mentionedJidList))))"

text \<open>
  The content resolution of \<^verbatim>\<open>sendMessage\<close> (Client.js, 553-576): the new
  content and the internal options record, or the error thrown on the way.
\<close>

definition sendMessage_resolve :: "jsval \<Rightarrow> MessageSendOptions \<Rightarrow> js_error + (jsval \<times> internalOptions)" where
  "sendMessage_resolve content options =
     (case sendMessage_internalOptions options of
        Inl e \<Rightarrow> Inl e
      | Inr internalOptions \<Rightarrow>
          if instanceof_MessageMedia content then
            Inr (Str [], internalOptions(''attachment'' := content))
          else if instanceof_MessageMedia (media options) then
            Inr (Str [], internalOptions(''attachment'' := media options, ''caption'' := content))
          else if instanceof_Location content then
            Inr (Str [], internalOptions(''location'' := content))
          else if instanceof_Contact content then
            (case contact_id_serialized content of
               Inl e \<Rightarrow> Inl e
             | Inr s \<Rightarrow> Inr (Str [], internalOptions(''contactCard'' := s)))
          else
            (case content of
               Arr (c # cs) \<Rightarrow>
                 if instanceof_Contact c then
                   (case map_id_serialized (c # cs) of
                      Inl e \<Rightarrow> Inl e
                    | Inr ids \<Rightarrow> Inr (Str [], internalOptions(''contactCardList'' := Arr ids)))
                 else Inr (content, internalOptions)
             | Buttons body type \<Rightarrow>
                 Inr (Str [],
                      (if type \<noteq> ''chat'' then internalOptions(''attachment'' := body)
                       else internalOptions)(''buttons'' := content))
             | ListMsg title \<Rightarrow> Inr (Str [], internalOptions(''list'' := content))
             | _ \<Rightarrow> Inr (content, internalOptions)))"

definition no_options :: MessageSendOptions where
  "no_options = \<lparr>linkPreview = Undefined, sendAudioAsVoice = Undefined,
     sendVideoAsGif = Undefined, sendMediaAsSticker = Undefined,
     sendMediaAsDocument = Undefined, caption = Undefined, quotedMessageId = Undefined,
     parseVCards = Undefined, mentions = Undefined, media = Undefined, extra = []\<rparr>"

section \<open>The client's options\<close>

text \<open>
  The options that \<^verbatim>\<open>initialize\<close> reads. \<open>puppeteer_browserWSEndpoint\<close> is
  the entry of \<^verbatim>\<open>options.puppeteer\<close>.
\<close>

record ClientOptions =
  puppeteer_browserWSEndpoint :: jsval
  useDeprecatedSessionAuth :: bool
  session :: jsval
  bypassCSP :: bool
  qrMaxRetries :: int

section \<open>Logging out\<close>

text \<open>
  The file system is the list of the paths that exist. Node's \<^verbatim>\<open>fs.rmSync\<close> and
  \<^verbatim>\<open>fs.rmdirSync\<close> take the path as their first argument and the options as
  their second, and ignore \<^verbatim>\<open>this\<close>. They validate the path before they touch
  the file system: a first argument that is not a string (or a Buffer or URL, which are
  not among the modelled values) is a TypeError. With the \<^verbatim>\<open>recursive\<close> option
  the directory and everything below it is removed; without it a directory with content
  is not removed.
\<close>

datatype fs_function = fs_rmSync | fs_rmdirSync

definition options_recursive :: "jsval list \<Rightarrow> bool" where
  "options_recursive args =
     (case args of
        _ # opts # _ \<Rightarrow> (case get_prop opts ''recursive'' of Inr v \<Rightarrow> truthy v | Inl _ \<Rightarrow> False)
      | _ \<Rightarrow> False)"

definition fs_remove :: "jsval list \<Rightarrow> string list \<Rightarrow> js_error + string list" where
  "fs_remove args files =
     (case args of
        Str p # _ \<Rightarrow>
          if options_recursive args
          then Inr (filter (\<lambda>q. q \<noteq> p \<and> \<not> prefix (p @ ''/'') q) files)
          else Inl (Error ''ENOTEMPTY'')
      | _ \<Rightarrow> Inl TypeError)"

text \<open>
  What \<^verbatim>\<open>logout\<close> does: the remote logout command, and a call of a file system
  function with its \<^verbatim>\<open>this\<close> value and its arguments.
\<close>

datatype logout_effect =
    Remote_AppState_logout
  | Fs_call fs_function jsval "jsval list"

text \<open>
  \<^verbatim>\<open>logout\<close> (Client.js, 476-484). \<open>has_rmSync\<close> says whether
  \<^verbatim>\<open>fs.rmSync\<close> exists, \<open>remote\<close> is the outcome of the remote logout.
  \<^verbatim>\<open>f.call(a, b)\<close> calls \<open>f\<close> with \<^verbatim>\<open>this = a\<close> and the single
  argument \<open>b\<close>. The result is the value returned or the error thrown, the effects
  and the file system afterwards.
\<close>

definition logout ::
  "jsval \<Rightarrow> bool \<Rightarrow> js_error + jsval \<Rightarrow> string list
     \<Rightarrow> (js_error + jsval) \<times> logout_effect list \<times> string list" where
  "logout dataDir has_rmSync remote files =
     (case remote of
        Inl e \<Rightarrow> (Inl e, [Remote_AppState_logout], files)
      | Inr _ \<Rightarrow>
          if truthy dataDir then
            (let f = (if has_rmSync then fs_rmSync else fs_rmdirSync);
                 thisArg = dataDir;
                 args = [Obj [(''recursive'', Bool True)]]
             in case fs_remove args files of
                  Inl e \<Rightarrow> (Inl e, [Remote_AppState_logout, Fs_call f thisArg args], files)
                | Inr files' \<Rightarrow>
                    (Inr Undefined, [Remote_AppState_logout, Fs_call f thisArg args], files'))
          else (Inr Undefined, [Remote_AppState_logout], files))"

section \<open>Initialization\<close>

text \<open>
  The round trips of \<^verbatim>\<open>initialize\<close> to the browser and the page. An evaluated
  function is named by the injected function or by what it reads.
\<close>

datatype round_trip =
    puppeteer_connect
  | browser_newPage
  | puppeteer_launch
  | browser_pages
  | page_authenticate
  | page_evaluateOnNewDocument
  | page_setBypassCSP
  | page_goto
  | page_exposeFunction string
  | page_evaluate string
  | page_waitForSelector string
  | page_waitForFunction string

text \<open>
  A step of the run: a round trip that was awaited, an effect of the client, or the
  registration of a listener with \<^verbatim>\<open>page.on\<close>.
\<close>

datatype step =
    Await round_trip
  | Fire effect
  | Page_on string

text \<open>
  What the run depends on: the outcome of each round trip; the outcome of the race of
  the two selectors (\<open>Inl\<close> when it resolves to an error, otherwise whether the QR code
  was found); the tokens the page hands to \<^verbatim>\<open>qrChanged\<close> while the client
  waits for the scan; and the global bindings of the host, where an identifier that the
  module does not declare is looked up.
\<close>

record Environment =
  respond :: "round_trip \<Rightarrow> js_error + jsval"
  needAuthentication :: "js_error + bool"
  qr_tokens :: "string list"
  global :: "string \<Rightarrow> jsval option"

text \<open>An action extends the run and returns a value or throws.\<close>

type_synonym 'a action = "step list \<Rightarrow> (js_error + 'a) \<times> step list"

definition ret :: "'a \<Rightarrow> 'a action" where
  "ret x run = (Inr x, run)"

definition throw :: "js_error \<Rightarrow> 'a action" where
  "throw e run = (Inl e, run)"

definition bnd :: "'a action \<Rightarrow> ('a \<Rightarrow> 'b action) \<Rightarrow> 'b action" where
  "bnd m f run = (case m run of (Inl e, run') \<Rightarrow> (Inl e, run') | (Inr x, run') \<Rightarrow> f x run')"

definition await :: "Environment \<Rightarrow> round_trip \<Rightarrow> jsval action" where
  "await env rt run = (respond env rt, run @ [Await rt])"

definition fire :: "effect list \<Rightarrow> unit action" where
  "fire effs run = (Inr (), run @ map Fire effs)"

definition page_on :: "string \<Rightarrow> unit action" where
  "page_on name run = (Inr (), run @ [Page_on name])"

text \<open>
  Reading an identifier that no scope of the module declares: the value of the global
  binding, or a ReferenceError when there is none.
\<close>

definition read_identifier :: "Environment \<Rightarrow> string \<Rightarrow> jsval action" where
  "read_identifier env x run =
     (case global env x of None \<Rightarrow> (Inl (ReferenceError x), run) | Some v \<Rightarrow> (Inr v, run))"

text \<open>
  Client.js, 94-138: browser, page, listeners, navigation. The call of
  \<^verbatim>\<open>page.setUserAgent\<close> is not awaited and is left out.
\<close>

definition initialize_launch :: "ClientOptions \<Rightarrow> Environment \<Rightarrow> bool \<Rightarrow> unit action" where
  "initialize_launch options env credentials =
     bnd (if truthy (puppeteer_browserWSEndpoint options)
          then bnd (await env puppeteer_connect) (\<lambda>_. await env browser_newPage)
          else bnd (await env puppeteer_launch) (\<lambda>_. await env browser_pages)) (\<lambda>_.
     bnd (if credentials then await env page_authenticate else ret Undefined) (\<lambda>_.
     bnd (if useDeprecatedSessionAuth options \<and> truthy (session options)
          then await env page_evaluateOnNewDocument else ret Undefined) (\<lambda>_.
     bnd (page_on ''close'') (\<lambda>_.
     bnd (if bypassCSP options then await env page_setBypassCSP else ret Undefined) (\<lambda>_.
     bnd (await env page_goto) (\<lambda>_. ret ()))))))"

text \<open>
  Client.js, 140-207: the race, and the QR flow with the calls of \<^verbatim>\<open>qrChanged\<close>
  that arrive before the scan.
\<close>

definition initialize_handshake :: "ClientOptions \<Rightarrow> Environment \<Rightarrow> unit action" where
  "initialize_handshake options env =
     (case needAuthentication env of
        Inl err \<Rightarrow> throw err
      | Inr need \<Rightarrow>
          if need then
            bnd (await env (page_exposeFunction ''qrChanged'')) (\<lambda>_.
            bnd (await env (page_evaluate ''QR_CONTAINER'')) (\<lambda>_.
            bnd (fire (concat (snd (qrCalls (qrMaxRetries options) (qr_tokens env) 0)))) (\<lambda>_.
            bnd (await env (page_waitForSelector ''INTRO_IMG_SELECTOR'')) (\<lambda>_. ret ()))))
          else ret ())"

text \<open>The payload of \<open>authenticated\<close> under the deprecated session authentication.\<close>

definition authEventPayload_of :: "jsval \<Rightarrow> js_error + jsval" where
  "authEventPayload_of localStorage =
     (case get_prop localStorage ''WABrowserId'' of
        Inl e \<Rightarrow> Inl e
      | Inr _ \<Rightarrow>
          Inr (Obj (map (\<lambda>k. (k, case get_prop localStorage k of Inr v \<Rightarrow> v | Inl _ \<Rightarrow> Undefined))
                     [''WABrowserId'', ''WASecretBundle'', ''WAToken1'', ''WAToken2''])))"

text \<open>Client.js, 209-265: the store, the \<open>authenticated\<close> event, the utilities.\<close>

definition initialize_store :: "ClientOptions \<Rightarrow> Environment \<Rightarrow> unit action" where
  "initialize_store options env =
     bnd (await env (page_evaluate ''ExposeStore'')) (\<lambda>_.
     bnd (if useDeprecatedSessionAuth options
          then bnd (await env (page_evaluate ''localStorage''))
                 (\<lambda>localStorage. case authEventPayload_of localStorage of
                                   Inl e \<Rightarrow> throw e | Inr p \<Rightarrow> ret p)
          else ret Undefined) (\<lambda>authEventPayload.
     bnd (fire [Emit (AUTHENTICATED authEventPayload)]) (\<lambda>_.
     bnd (await env (page_waitForFunction ''window.Store != undefined'')) (\<lambda>_.
     bnd (await env (page_evaluate ''MD_BACKEND'')) (\<lambda>isMD.
     bnd (await env (page_evaluate ''serviceWorker'')) (\<lambda>_.
     bnd (if useDeprecatedSessionAuth options \<and> truthy isMD
          then throw (Error ''Authenticating via JSON session is not supported for MultiDevice-enabled WhatsApp accounts.'')
          else ret ()) (\<lambda>_.
     bnd (await env (page_evaluate ''LoadUtils'')) (\<lambda>_.
     bnd (await env (page_evaluate ''Conn'')) (\<lambda>_. ret ())))))))))"

text \<open>Client.js, 267-450: the host callbacks are exposed and wired to the store.\<close>

definition initialize_register_events :: "Environment \<Rightarrow> unit action" where
  "initialize_register_events env =
     bnd (await env (page_exposeFunction ''onAddMessageEvent'')) (\<lambda>_.
     bnd (await env (page_exposeFunction ''onChangeMessageTypeEvent'')) (\<lambda>_.
     bnd (await env (page_exposeFunction ''onChangeMessageEvent'')) (\<lambda>_.
     bnd (await env (page_exposeFunction ''onRemoveMessageEvent'')) (\<lambda>_.
     bnd (await env (page_exposeFunction ''onMessageAckEvent'')) (\<lambda>_.
     bnd (await env (page_exposeFunction ''onMessageMediaUploadedEvent'')) (\<lambda>_.
     bnd (await env (page_exposeFunction ''onAppStateChangedEvent'')) (\<lambda>_.
     bnd (await env (page_exposeFunction ''onIncomingCall'')) (\<lambda>_.
     bnd (await env (page_evaluate ''Store.on'')) (\<lambda>_. ret ())))))))))"

text \<open>
  \<^verbatim>\<open>initialize\<close> (Client.js, 93-464). The last statements are
  \<^verbatim>\<open>this.emit(Events.READY, loggedAndTimeouted)\<close>, whose second argument is an
  identifier that the module declares nowhere, and the registration of the navigation
  listener.
\<close>

definition initialize :: "ClientOptions \<Rightarrow> Environment \<Rightarrow> bool \<Rightarrow> unit action" where
  "initialize options env credentials =
     bnd (initialize_launch options env credentials) (\<lambda>_.
     bnd (initialize_handshake options env) (\<lambda>_.
     bnd (initialize_store options env) (\<lambda>_.
     bnd (initialize_register_events env) (\<lambda>_.
     bnd (read_identifier env ''loggedAndTimeouted'') (\<lambda>loggedAndTimeouted.
     bnd (fire [Emit (READY loggedAndTimeouted)]) (\<lambda>_.
     page_on ''framenavigated''))))))"

text \<open>A run in which the \<open>ready\<close> event was not fired, and the actions that keep it so.\<close>

definition no_ready :: "step list \<Rightarrow> bool" where
  "no_ready run = (\<forall>v. Fire (Emit (READY v)) \<notin> set run)"

definition keeps_no_ready :: "'a action \<Rightarrow> bool" where
  "keeps_no_ready m = (\<forall>run. no_ready run \<longrightarrow> no_ready (snd (m run)))"

section \<open>Concrete inputs\<close>

definition msg_text :: RawMsg where
  "msg_text = \<lparr>isNewMsg = True, msg_type = ''chat'', subtype = None,
       msg_id = \<lparr>fromMe = False, id_id = ''3EB0'', id_serialized = ''false_1@c.us_3EB0''\<rparr>,
       msg_body = ''hi''\<rparr>"

definition msg_invite :: RawMsg where
  "msg_invite = \<lparr>isNewMsg = True, msg_type = ''gp2'', subtype = Some ''invite'',
       msg_id = \<lparr>fromMe = False, id_id = ''3EB1'', id_serialized = ''false_9@g.us_3EB1''\<rparr>,
       msg_body = []\<rparr>"

definition msg_revoked :: RawMsg where
  "msg_revoked = \<lparr>isNewMsg = True, msg_type = ''revoked'', subtype = None,
       msg_id = \<lparr>fromMe = False, id_id = ''3EB0'', id_serialized = ''false_1@c.us_3EB0''\<rparr>,
       msg_body = []\<rparr>"

definition chats_unordered :: "Chat list" where
  "chats_unordered = [\<lparr>chat_id = ''a@c.us'', pin = True\<rparr>, \<lparr>chat_id = ''b@c.us'', pin = True\<rparr>,
                      \<lparr>chat_id = ''t@c.us'', pin = False\<rparr>, \<lparr>chat_id = ''c@c.us'', pin = True\<rparr>]"

definition chats_ordered :: "Chat list" where
  "chats_ordered = [\<lparr>chat_id = ''a@c.us'', pin = True\<rparr>, \<lparr>chat_id = ''b@c.us'', pin = True\<rparr>,
                    \<lparr>chat_id = ''c@c.us'', pin = True\<rparr>, \<lparr>chat_id = ''t@c.us'', pin = False\<rparr>]"

definition default_options :: ClientOptions where
  "default_options = \<lparr>puppeteer_browserWSEndpoint = Undefined,
     useDeprecatedSessionAuth = False, session = Undefined, bypassCSP = False,
     qrMaxRetries = 0\<rparr>"

text \<open>
  A host without extra global bindings, a page on which every round trip succeeds, and
  a session that is already authenticated.
\<close>

definition plain_environment :: Environment where
  "plain_environment = \<lparr>respond = (\<lambda>_. Inr Undefined), needAuthentication = Inr False,
     qr_tokens = [], global = (\<lambda>_. None)\<rparr>"

definition session_files :: "string list" where
  "session_files = [''/srv/bot/WWebJS/session-main'', ''/srv/bot/WWebJS/session-main/Default'']"

section \<open>Properties of the event bridge\<close>

lemma Store_Msg_on_add_not_new: "\<not> isNewMsg msg \<Longrightarrow> Store_Msg_on_add getMessageModel msg = []"
  by (simp add: Store_Msg_on_add_def)

text \<open>
  C1. For every message-added record delivered to \<^verbatim>\<open>onAddMessageEvent\<close>: a record
  that is not flagged new emits nothing; a new record of type \<^verbatim>\<open>gp2\<close> (the group
  notification type) emits exactly one event, which is \<open>group_join\<close> for the subtypes
  \<^verbatim>\<open>add\<close> and \<^verbatim>\<open>invite\<close>, \<open>group_leave\<close> for \<^verbatim>\<open>remove\<close> and
  \<^verbatim>\<open>leave\<close> and \<open>group_update\<close> for every other subtype, and no message event;
  every other new record emits \<open>message_create\<close>, followed by \<open>message\<close> exactly when
  the record is not from the client's own account, and nothing else.
\<close>

theorem onAddMessageEvent_classifies:
  "(\<not> isNewMsg msg \<longrightarrow> onAddMessageEvent msg = []) \<and>
   (isNewMsg msg \<and> msg_type msg = ''gp2'' \<longrightarrow>
      (\<exists>e. onAddMessageEvent msg = [e] \<and> is_group_event e \<and> \<not> is_message_event e \<and>
         (e = GROUP_JOIN msg \<longleftrightarrow> subtype msg \<in> {Some ''add'', Some ''invite''}) \<and>
         (e = GROUP_LEAVE msg \<longleftrightarrow> subtype msg \<in> {Some ''remove'', Some ''leave''}) \<and>
         (e = GROUP_UPDATE msg \<longleftrightarrow>
            subtype msg \<notin> {Some ''add'', Some ''invite'', Some ''remove'', Some ''leave''}))) \<and>
   (isNewMsg msg \<and> msg_type msg \<noteq> ''gp2'' \<longrightarrow>
      (fromMe (msg_id msg) \<longrightarrow> onAddMessageEvent msg = [MESSAGE_CREATE msg]) \<and>
      (\<not> fromMe (msg_id msg) \<longrightarrow>
         onAddMessageEvent msg = [MESSAGE_CREATE msg, MESSAGE_RECEIVED msg]))"
  by (auto simp: onAddMessageEvent_def is_group_event_def is_message_event_def)

theorem onAddMessageEvent_classifies_witness:
  "onAddMessageEvent (msg_text\<lparr>isNewMsg := False\<rparr>) = [] \<and>
   onAddMessageEvent msg_invite = [GROUP_JOIN msg_invite] \<and>
   onAddMessageEvent msg_text = [MESSAGE_CREATE msg_text, MESSAGE_RECEIVED msg_text]"
  using onAddMessageEvent_classifies [of "msg_text\<lparr>isNewMsg := False\<rparr>"]
    onAddMessageEvent_classifies [of msg_invite]
    onAddMessageEvent_classifies [of msg_text]
  by (auto simp: msg_text_def msg_invite_def)

text \<open>
  C2. A generic message-changed record overwrites the single-slot cache with the whole
  record if and only if its type is not \<^verbatim>\<open>revoked\<close> (a revoked record leaves the
  slot as it was). A type-changed record whose type is \<^verbatim>\<open>revoked\<close> emits exactly
  one \<open>message_revoke_everyone\<close> event carrying that record; the event also carries
  the cached record if and only if the slot is filled and the cached record has the same
  \<^verbatim>\<open>id.id\<close>, and otherwise carries no earlier record.
\<close>

theorem revoke_uses_last_seen_cache:
  "(msg_type msg \<noteq> ''revoked'' \<longrightarrow> onChangeMessageEvent msg last_message = Some msg) \<and>
   (msg_type msg = ''revoked'' \<longrightarrow> onChangeMessageEvent msg last_message = last_message) \<and>
   (msg_type rmsg = ''revoked'' \<longrightarrow>
      (\<exists>prior. onChangeMessageTypeEvent rmsg last_message = [MESSAGE_REVOKED_EVERYONE rmsg prior] \<and>
         (prior \<noteq> None \<longleftrightarrow>
            (\<exists>l. last_message = Some l \<and> id_id (msg_id l) = id_id (msg_id rmsg))) \<and>
         (prior \<noteq> None \<longrightarrow> prior = last_message)))"
  by (auto simp: onChangeMessageEvent_def onChangeMessageTypeEvent_def split: option.splits)

theorem revoke_uses_last_seen_cache_witness:
  "onChangeMessageEvent msg_text None = Some msg_text \<and>
   onChangeMessageEvent msg_revoked (Some msg_text) = Some msg_text \<and>
   onChangeMessageTypeEvent msg_revoked (Some msg_text)
     = [MESSAGE_REVOKED_EVERYONE msg_revoked (Some msg_text)]"
  using revoke_uses_last_seen_cache [of msg_text None msg_revoked]
    revoke_uses_last_seen_cache [of msg_revoked "Some msg_text" msg_revoked]
  by (auto simp: msg_text_def msg_revoked_def)

section \<open>Properties of the QR retry counter\<close>

lemma qrCalls_counter_pos: "0 < N \<Longrightarrow> fst (qrCalls N qrs n) = n + length qrs"
  by (induction qrs arbitrary: n) (auto simp: split_def Let_def qrChanged_def)

lemma qrCalls_counter_off: "N \<le> 0 \<Longrightarrow> fst (qrCalls N qrs n) = n"
  by (induction qrs arbitrary: n) (auto simp: split_def Let_def qrChanged_def)

lemma qrChanged_counter_pos: "0 < N \<Longrightarrow> fst (qrChanged N qr n) = n + 1"
  by (simp add: qrChanged_def Let_def)

lemma qrCalls_nth_pos:
  "0 < N \<Longrightarrow> k < length qrs \<Longrightarrow>
     snd (qrCalls N qrs n) ! k = snd (qrChanged N (qrs ! k) (n + k))"
proof (induction qrs arbitrary: n k)
  case Nil
  then show ?case by simp
next
  case (Cons qr qrs)
  show ?case
  proof (cases k)
    case 0
    then show ?thesis by (simp add: split_def Let_def)
  next
    case (Suc j)
    with Cons.prems have "j < length qrs" by simp
    from Cons.IH [OF Cons.prems(1) this, of "fst (qrChanged N qr n)"]
    show ?thesis using Suc Cons.prems(1)
      by (simp add: split_def Let_def qrChanged_counter_pos)
  qed
qed

lemma qrCalls_nth_off:
  "N \<le> 0 \<Longrightarrow> k < length qrs \<Longrightarrow> snd (qrCalls N qrs n) ! k = [Emit (QR_RECEIVED (qrs ! k))]"
proof (induction qrs arbitrary: n k)
  case Nil
  then show ?case by simp
next
  case (Cons qr qrs)
  show ?case
  proof (cases k)
    case 0
    then show ?thesis using Cons.prems(1) by (simp add: split_def Let_def qrChanged_def)
  next
    case (Suc j)
    with Cons.prems have "j < length qrs" by simp
    from Cons.IH [OF Cons.prems(1) this]
    show ?thesis using Suc by (simp add: split_def Let_def)
  qed
qed

lemma qrChanged_disconnects:
  "0 < N \<Longrightarrow> (\<exists>eff \<in> set (snd (qrChanged N qr n)). is_disconnected eff) \<longleftrightarrow> N < int n + 1"
  by (auto simp: qrChanged_def Let_def is_disconnected_def)

text \<open>
  C3, as the code has it. The page calls \<^verbatim>\<open>qrChanged\<close> first with the initial
  token and then once for every token refresh. With \<open>qrMaxRetries = N > 0\<close> the
  counter is incremented once by every call, the initial one included, so after the
  initial call and the refreshes it is their number plus one; the initial call emits no
  \<open>disconnected\<close> event; the \<open>k\<close>-th refresh emits one exactly when \<open>N \<le> k\<close>;
  and the \<open>N\<close>-th refresh, which is the \<open>(N+1)\<close>-th call, emits the token, then
  exactly one \<open>disconnected\<close> event with the reason
  \<^verbatim>\<open>Max qrcode retries reached\<close>, then closes the browser. With
  \<open>qrMaxRetries \<le> 0\<close> the counter is never incremented and every call only emits the
  token.
\<close>

theorem qr_retry_limit:
  "(0 < N \<longrightarrow>
      fst (qrCalls N (initial # refreshes) 0) = 1 + length refreshes \<and>
      snd (qrCalls N (initial # refreshes) 0) ! 0 = [Emit (QR_RECEIVED initial)] \<and>
      (\<forall>k < length refreshes.
         (\<exists>eff \<in> set (snd (qrCalls N (initial # refreshes) 0) ! Suc k). is_disconnected eff)
           \<longleftrightarrow> N \<le> int k + 1) \<and>
      (nat N \<le> length refreshes \<longrightarrow>
         snd (qrCalls N (initial # refreshes) 0) ! nat N =
           [Emit (QR_RECEIVED (refreshes ! (nat N - 1))),
            Emit (DISCONNECTED ''Max qrcode retries reached''), BrowserClose])) \<and>
   (N \<le> 0 \<longrightarrow>
      fst (qrCalls N (initial # refreshes) n) = n \<and>
      (\<forall>k < Suc (length refreshes).
         snd (qrCalls N (initial # refreshes) n) ! k
           = [Emit (QR_RECEIVED ((initial # refreshes) ! k))]))"
proof (intro conjI impI allI)
  assume "0 < N"
  then have "fst (qrCalls N (initial # refreshes) 0) = 0 + length (initial # refreshes)"
    by (rule qrCalls_counter_pos)
  then show "fst (qrCalls N (initial # refreshes) 0) = 1 + length refreshes"
    by (simp del: qrCalls.simps)
next
  assume N: "0 < N"
  show "snd (qrCalls N (initial # refreshes) 0) ! 0 = [Emit (QR_RECEIVED initial)]"
    using qrCalls_nth_pos [OF N, of 0 "initial # refreshes" 0] N
    by (simp add: qrChanged_def Let_def)
next
  fix k
  assume N: "0 < N" and k: "k < length refreshes"
  then have k': "Suc k < length (initial # refreshes)" by simp
  show "(\<exists>eff \<in> set (snd (qrCalls N (initial # refreshes) 0) ! Suc k). is_disconnected eff)
      \<longleftrightarrow> N \<le> int k + 1"
    using qrCalls_nth_pos [OF N k', of 0]
      qrChanged_disconnects [OF N, of "(initial # refreshes) ! Suc k" "Suc k"]
    by auto
next
  assume N: "0 < N" and k: "nat N \<le> length refreshes"
  then have k': "nat N < length (initial # refreshes)" by simp
  from N obtain j where j: "nat N = Suc j" by (cases "nat N") auto
  show "snd (qrCalls N (initial # refreshes) 0) ! nat N =
      [Emit (QR_RECEIVED (refreshes ! (nat N - 1))),
       Emit (DISCONNECTED ''Max qrcode retries reached''), BrowserClose]"
    using qrCalls_nth_pos [OF N k', of 0] N j by (simp add: qrChanged_def Let_def)
next
  assume "N \<le> 0"
  then show "fst (qrCalls N (initial # refreshes) n) = n" by (rule qrCalls_counter_off)
next
  fix k
  assume "N \<le> 0" and "k < Suc (length refreshes)"
  then show "snd (qrCalls N (initial # refreshes) n) ! k
      = [Emit (QR_RECEIVED ((initial # refreshes) ! k))]"
    using qrCalls_nth_off [of N k "initial # refreshes" n] by simp
qed

theorem qr_retry_limit_witness:
  "fst (qrCalls 2 [''initial'', ''refresh1'', ''refresh2''] 0) = 3 \<and>
   snd (qrCalls 2 [''initial'', ''refresh1'', ''refresh2''] 0) ! 0
     = [Emit (QR_RECEIVED ''initial'')] \<and>
   snd (qrCalls 2 [''initial'', ''refresh1'', ''refresh2''] 0) ! 2 =
     [Emit (QR_RECEIVED ''refresh2''), Emit (DISCONNECTED ''Max qrcode retries reached''),
      BrowserClose] \<and>
   fst (qrCalls 0 [''initial'', ''refresh1'', ''refresh2''] 5) = 5 \<and>
   snd (qrCalls 0 [''initial'', ''refresh1'', ''refresh2''] 5) ! 2
     = [Emit (QR_RECEIVED ''refresh2'')]"
proof -
  note pos = qr_retry_limit [of 2 "''initial''" "[''refresh1'', ''refresh2'']" 5]
  note off = qr_retry_limit [of 0 "''initial''" "[''refresh1'', ''refresh2'']" 5]
  have a: "fst (qrCalls 2 [''initial'', ''refresh1'', ''refresh2''] 0) = 3" using pos by simp
  have b: "snd (qrCalls 2 [''initial'', ''refresh1'', ''refresh2''] 0) ! 0
      = [Emit (QR_RECEIVED ''initial'')]"
    using conjunct1 [OF conjunct2 [OF mp [OF conjunct1 [OF pos]]]] by simp
  have c: "snd (qrCalls 2 [''initial'', ''refresh1'', ''refresh2''] 0) ! 2 =
     [Emit (QR_RECEIVED ''refresh2''), Emit (DISCONNECTED ''Max qrcode retries reached''),
      BrowserClose]"
    using conjunct2 [OF conjunct2 [OF conjunct2 [OF mp [OF conjunct1 [OF pos]]]]] by simp
  have d: "fst (qrCalls 0 [''initial'', ''refresh1'', ''refresh2''] 5) = 5" using off by simp
  have e: "snd (qrCalls 0 [''initial'', ''refresh1'', ''refresh2''] 5) ! 2
      = [Emit (QR_RECEIVED ''refresh2'')]"
    using spec [OF conjunct2 [OF mp [OF conjunct2 [OF off]]], of 2] by simp
  from a b c d e show ?thesis by blast
qed

text \<open>
  The claim as written fails three times. With \<open>qrMaxRetries = 0\<close> a call leaves the
  counter at its value. With \<open>qrMaxRetries = 1\<close> the initial call is counted, so the
  first refresh, the \<open>N\<close>-th and not the \<open>(N+1)\<close>-th, already emits the
  \<open>disconnected\<close> event and closes the browser. And the reason of that event is not
  \<^verbatim>\<open>max retries reached\<close>.
\<close>

theorem qr_retry_counterexample:
  "fst (qrChanged 0 ''initial'' 0) = 0 \<and>
   snd (qrCalls 1 [''initial'', ''refresh1''] 0) =
     [[Emit (QR_RECEIVED ''initial'')],
      [Emit (QR_RECEIVED ''refresh1''), Emit (DISCONNECTED ''Max qrcode retries reached''),
       BrowserClose]] \<and>
   Emit (DISCONNECTED ''max retries reached'')
     \<notin> set (concat (snd (qrCalls 1 [''initial'', ''refresh1''] 0)))"
  by (simp add: qrChanged_def)

section \<open>Properties of the connection-state handler\<close>

text \<open>
  C6, as the code has it. Every connection-state mutation emits a \<open>change_state\<close>
  event first, whatever the state. A \<open>disconnected\<close> event with the same state
  follows if and only if the state is outside the accepted set, which is
  \<open>CONNECTED\<close>, \<open>OPENING\<close>, \<open>PAIRING\<close>, \<open>TIMEOUT\<close> and, when
  takeover-on-conflict is configured, \<open>CONFLICT\<close>. With takeover configured the
  conflict state emits no \<open>disconnected\<close> event and arms the timer of the takeover
  request with the configured delay; the request's task never fails, and logs the
  rejection of the request.
\<close>

theorem onAppStateChangedEvent_events:
  "set (ACCEPTED_STATES wa options) =
     {CONNECTED wa, OPENING wa, PAIRING wa, TIMEOUT wa}
       \<union> (if takeoverOnConflict options then {CONFLICT wa} else {}) \<and>
   (state \<in> set (ACCEPTED_STATES wa options) \<longrightarrow>
      filter (\<lambda>eff. \<exists>e. eff = Emit e) (onAppStateChangedEvent wa options state)
        = [Emit (STATE_CHANGED state)]) \<and>
   (state \<notin> set (ACCEPTED_STATES wa options) \<longrightarrow>
      onAppStateChangedEvent wa options state
        = [Emit (STATE_CHANGED state), Emit (DISCONNECTED state)]) \<and>
   (takeoverOnConflict options \<and> state = CONFLICT wa \<longrightarrow>
      onAppStateChangedEvent wa options state
        = [Emit (STATE_CHANGED state), SetTimeoutTakeover (takeoverTimeoutMs options)]) \<and>
   fst (takeover_task outcome) = Inr () \<and>
   (\<forall>e. \<exists>line. snd (takeover_task (Inl e)) = [ConsoleLog line])"
  by (auto simp: onAppStateChangedEvent_def ACCEPTED_STATES_def takeover_task_def
           split: sum.splits)

theorem onAppStateChangedEvent_events_witness:
  "onAppStateChangedEvent WAState_table \<lparr>takeoverOnConflict = True, takeoverTimeoutMs = 0\<rparr>
       ''CONFLICT''
     = [Emit (STATE_CHANGED ''CONFLICT''), SetTimeoutTakeover 0] \<and>
   onAppStateChangedEvent WAState_table \<lparr>takeoverOnConflict = False, takeoverTimeoutMs = 0\<rparr>
       ''CONFLICT''
     = [Emit (STATE_CHANGED ''CONFLICT''), Emit (DISCONNECTED ''CONFLICT'')] \<and>
   filter (\<lambda>eff. \<exists>e. eff = Emit e)
       (onAppStateChangedEvent WAState_table
          \<lparr>takeoverOnConflict = False, takeoverTimeoutMs = 0\<rparr> ''OPENING'')
     = [Emit (STATE_CHANGED ''OPENING'')]"
  using onAppStateChangedEvent_events
      [of WAState_table "\<lparr>takeoverOnConflict = True, takeoverTimeoutMs = 0\<rparr>" "''CONFLICT''"]
    onAppStateChangedEvent_events
      [of WAState_table "\<lparr>takeoverOnConflict = False, takeoverTimeoutMs = 0\<rparr>" "''CONFLICT''"]
    onAppStateChangedEvent_events
      [of WAState_table "\<lparr>takeoverOnConflict = False, takeoverTimeoutMs = 0\<rparr>" "''OPENING''"]
  by (simp add: WAState_table_def)

text \<open>
  The claim as written fails: without takeover the state \<^verbatim>\<open>UNPAIRED\<close> emits
  both events.
\<close>

theorem onAppStateChangedEvent_counterexample:
  "onAppStateChangedEvent WAState_table \<lparr>takeoverOnConflict = False, takeoverTimeoutMs = 0\<rparr>
       ''UNPAIRED''
     = [Emit (STATE_CHANGED ''UNPAIRED''), Emit (DISCONNECTED ''UNPAIRED'')]"
  by (simp add: onAppStateChangedEvent_def ACCEPTED_STATES_def WAState_table_def)

section \<open>Properties of pinning\<close>

lemma pinned_first_third_pinned:
  assumes "pinned_first models" and "MAX_PIN_COUNT \<le> length (filter pin models)"
  shows "pin (models ! (MAX_PIN_COUNT - 1))"
proof -
  have lt: "MAX_PIN_COUNT - 1 < length (filter pin models)"
    using assms(2) by (simp add: MAX_PIN_COUNT_def)
  have "models ! (MAX_PIN_COUNT - 1)
      = (filter pin models @ filter (\<lambda>c. \<not> pin c) models) ! (MAX_PIN_COUNT - 1)"
    using assms(1) by (simp add: pinned_first_def)
  also have "\<dots> = filter pin models ! (MAX_PIN_COUNT - 1)"
    using lt by (simp add: nth_append)
  finally have "models ! (MAX_PIN_COUNT - 1) \<in> set (filter pin models)"
    using lt nth_mem by metis
  then show ?thesis by simp
qed

lemma Store_Chat_get_mem:
  "Store_Chat_get models chatId = Some chat \<Longrightarrow> chat \<in> set models \<and> chat_id chat = chatId"
  by (auto simp: Store_Chat_get_def find_Some_iff)

lemma unpinned_member_longer:
  assumes "chat \<in> set models" and "\<not> pin chat"
  shows "length (filter pin models) < length models"
proof -
  have "length (filter pin models) + length (filter (\<lambda>c. \<not> pin c) models) = length models"
    by (rule sum_length_filter_compl)
  moreover have "chat \<in> set (filter (\<lambda>c. \<not> pin c) models)"
    using assms by simp
  then have "0 < length (filter (\<lambda>c. \<not> pin c) models)"
    by (metis length_pos_if_in_set)
  ultimately show ?thesis by linarith
qed

text \<open>
  C8, as the code has it. The cap is \<open>MAX_PIN_COUNT = 3\<close>. When the chat list is in
  the store's order, pinned chats first, and holds at least three pinned chats, then
  \<^verbatim>\<open>pinChat\<close> on a chat of the list that is not pinned returns \<open>false\<close> and
  issues no remote command.
\<close>

theorem pinChat_cap:
  assumes "pinned_first models"
    and "MAX_PIN_COUNT \<le> length (filter pin models)"
    and "Store_Chat_get models chatId = Some chat"
    and "\<not> pin chat"
  shows "MAX_PIN_COUNT = 3 \<and> pinChat models cmd chatId = (Inr False, [])"
proof -
  have "chat \<in> set models" using assms(3) by (simp add: Store_Chat_get_mem)
  then have "MAX_PIN_COUNT < length models"
    using unpinned_member_longer [OF _ assms(4)] assms(2) by fastforce
  moreover have "pin (models ! (MAX_PIN_COUNT - 1))"
    using assms(1,2) by (rule pinned_first_third_pinned)
  ultimately show ?thesis
    using assms(3,4) by (simp add: pinChat_def MAX_PIN_COUNT_def)
qed

theorem pinChat_cap_witness:
  "pinned_first chats_ordered \<and> length (filter pin chats_ordered) = 3 \<and>
   pinChat chats_ordered (Inr ()) ''t@c.us'' = (Inr False, [])"
proof -
  have a: "pinned_first chats_ordered" by (simp add: pinned_first_def chats_ordered_def)
  have b: "length (filter pin chats_ordered) = 3" by (simp add: chats_ordered_def)
  have c: "Store_Chat_get chats_ordered ''t@c.us'' = Some \<lparr>chat_id = ''t@c.us'', pin = False\<rparr>"
    by (simp add: Store_Chat_get_def chats_ordered_def)
  have "pinChat chats_ordered (Inr ()) ''t@c.us'' = (Inr False, [])"
    using pinChat_cap [OF a _ c] b by (simp add: MAX_PIN_COUNT_def)
  with a b show ?thesis by simp
qed

text \<open>
  The claim as written fails: a chat list with three pinned chats of which one stands
  after the chat to be pinned lets the pin command through.
\<close>

theorem pinChat_cap_counterexample:
  "length (filter pin chats_unordered) = 3 \<and>
   Store_Chat_get chats_unordered ''t@c.us'' = Some \<lparr>chat_id = ''t@c.us'', pin = False\<rparr> \<and>
   pinChat chats_unordered (Inr ()) ''t@c.us''
     = (Inr True, [Cmd_pinChat \<lparr>chat_id = ''t@c.us'', pin = False\<rparr> True])"
  by (simp add: pinChat_def Store_Chat_get_def chats_unordered_def MAX_PIN_COUNT_def)

text \<open>
  C9. \<^verbatim>\<open>pinChat\<close> on a chat whose pin flag is set returns \<open>true\<close> and issues
  no remote command, whatever the rest of the chat list is.
\<close>

theorem pinChat_already_pinned:
  "Store_Chat_get models chatId = Some chat \<Longrightarrow> pin chat \<Longrightarrow>
     pinChat models cmd chatId = (Inr True, [])"
  by (simp add: pinChat_def)

theorem pinChat_already_pinned_witness:
  "Store_Chat_get chats_ordered ''b@c.us'' = Some \<lparr>chat_id = ''b@c.us'', pin = True\<rparr> \<and>
   pinChat chats_ordered (Inl (RemoteError None)) ''b@c.us'' = (Inr True, [])"
proof -
  have c: "Store_Chat_get chats_ordered ''b@c.us'' = Some \<lparr>chat_id = ''b@c.us'', pin = True\<rparr>"
    by (simp add: Store_Chat_get_def chats_ordered_def)
  from pinChat_already_pinned [OF c] c show ?thesis by simp
qed

section \<open>Properties of the number lookup\<close>

text \<open>
  C10, as the code has it. For every string \<open>number\<close> and every behaviour of the
  page, \<^verbatim>\<open>getNumberId\<close> does not reject: it resolves to a value, and when the
  round trip fails, or the page is missing, that value is \<open>null\<close>.
\<close>

theorem getNumberId_never_rejects:
  "(\<exists>v. getNumberId pupPage (Str number) = Inr v) \<and>
   (\<forall>e. pupPage_evaluate pupPage (numberId_of number) = Inl e \<longrightarrow>
      getNumberId pupPage (Str number) = Inr Null)"
  by (auto simp: getNumberId_def split: sum.splits)

theorem getNumberId_never_rejects_witness:
  "pupPage_evaluate (Some (\<lambda>_. Inl (RemoteError (Some ''Target closed'')))) (numberId_of ''4915112345678'')
     = Inl (RemoteError (Some ''Target closed'')) \<and>
   getNumberId (Some (\<lambda>_. Inl (RemoteError (Some ''Target closed'')))) (Str ''4915112345678'')
     = Inr Null \<and>
   numberId_of ''4915112345678'' = ''+4915112345678@c.us''"
  using getNumberId_never_rejects
    [of "Some (\<lambda>_. Inl (RemoteError (Some ''Target closed'')))" "''4915112345678''"]
  by (simp add: pupPage_evaluate_def numberId_of_def suffix_def)

text \<open>
  The claim as written fails: for an argument that is not a string, here the number
  \<open>4915112345678\<close> on a page whose round trips all succeed,
  \<^verbatim>\<open>getNumberId\<close> rejects with the TypeError of \<^verbatim>\<open>number.endsWith\<close>.
\<close>

theorem getNumberId_counterexample:
  "getNumberId (Some (\<lambda>_. Inr Null)) (Num 4915112345678) = Inl TypeError"
  by (simp add: getNumberId_def)

section \<open>Properties of the content resolution\<close>

lemma map_id_serialized_contacts: "map_id_serialized (map Contact ss) = Inr (map Str ss)"
  by (induction ss) (simp_all add: contact_id_serialized_def)

text \<open>
  C7. Let \<open>io\<close> be the internal options record as the object literal builds it. The
  resolution takes the first branch that matches, in the order: media as content; media
  in the options; location; contact; non-empty array whose first element is a contact;
  buttons; list. Each branch sets the fields of its variant and no other field of
  \<open>io\<close>, and the content becomes the empty string: the attachment; the attachment and
  the caption (the original content); the location; the contact card (the contact's
  serialised identity); the contact card list (the serialised identities of the
  contacts, in input order); the buttons, with the attachment set to their body when
  their type is not \<^verbatim>\<open>chat\<close>; the list. For four contacts the contact card list
  holds their four identities in input order.
\<close>

theorem sendMessage_resolution_order:
  assumes "sendMessage_internalOptions options = Inr io"
  shows
   "(instanceof_MessageMedia content \<longrightarrow>
       sendMessage_resolve content options = Inr (Str [], io(''attachment'' := content))) \<and>
    (\<not> instanceof_MessageMedia content \<and> instanceof_MessageMedia (media options) \<longrightarrow>
       sendMessage_resolve content options
         = Inr (Str [], io(''attachment'' := media options, ''caption'' := content))) \<and>
    (\<not> instanceof_MessageMedia (media options) \<longrightarrow>
       (instanceof_Location content \<longrightarrow>
          sendMessage_resolve content options = Inr (Str [], io(''location'' := content))) \<and>
       (\<forall>s. content = Contact s \<longrightarrow>
          sendMessage_resolve content options = Inr (Str [], io(''contactCard'' := Str s))) \<and>
       (\<forall>ss. content = Arr (map Contact ss) \<and> ss \<noteq> [] \<longrightarrow>
          sendMessage_resolve content options
            = Inr (Str [], io(''contactCardList'' := Arr (map Str ss)))) \<and>
       (\<forall>body type. content = Buttons body type \<longrightarrow>
          sendMessage_resolve content options
            = Inr (Str [], (if type \<noteq> ''chat'' then io(''attachment'' := body) else io)
                             (''buttons'' := content))) \<and>
       (instanceof_List content \<longrightarrow>
          sendMessage_resolve content options = Inr (Str [], io(''list'' := content))) \<and>
       (\<forall>a b c d. content = Arr [Contact a, Contact b, Contact c, Contact d] \<longrightarrow>
          sendMessage_resolve content options
            = Inr (Str [], io(''contactCardList'' := Arr [Str a, Str b, Str c, Str d]))))"
proof (intro conjI impI allI)
  assume "instanceof_MessageMedia content"
  then show "sendMessage_resolve content options = Inr (Str [], io(''attachment'' := content))"
    using assms by (simp add: sendMessage_resolve_def)
next
  assume "\<not> instanceof_MessageMedia content \<and> instanceof_MessageMedia (media options)"
  then show "sendMessage_resolve content options
      = Inr (Str [], io(''attachment'' := media options, ''caption'' := content))"
    using assms by (simp add: sendMessage_resolve_def)
next
  assume "\<not> instanceof_MessageMedia (media options)" and "instanceof_Location content"
  then show "sendMessage_resolve content options = Inr (Str [], io(''location'' := content))"
    using assms by (cases content) (simp_all add: sendMessage_resolve_def)
next
  fix s
  assume "\<not> instanceof_MessageMedia (media options)" and "content = Contact s"
  then show "sendMessage_resolve content options = Inr (Str [], io(''contactCard'' := Str s))"
    using assms by (simp add: sendMessage_resolve_def contact_id_serialized_def)
next
  fix ss
  assume m: "\<not> instanceof_MessageMedia (media options)"
    and c: "content = Arr (map Contact ss) \<and> ss \<noteq> []"
  then obtain s rest where ss: "ss = s # rest" by (cases ss) auto
  have "map_id_serialized (Contact s # map Contact rest) = Inr (Str s # map Str rest)"
    using map_id_serialized_contacts [of "s # rest"] by simp
  then show "sendMessage_resolve content options
      = Inr (Str [], io(''contactCardList'' := Arr (map Str ss)))"
    using assms m c ss by (simp add: sendMessage_resolve_def)
next
  fix body type
  assume "\<not> instanceof_MessageMedia (media options)" and "content = Buttons body type"
  then show "sendMessage_resolve content options
      = Inr (Str [], (if type \<noteq> ''chat'' then io(''attachment'' := body) else io)
                       (''buttons'' := content))"
    using assms by (simp add: sendMessage_resolve_def)
next
  assume "\<not> instanceof_MessageMedia (media options)" and "instanceof_List content"
  then show "sendMessage_resolve content options = Inr (Str [], io(''list'' := content))"
    using assms by (cases content) (simp_all add: sendMessage_resolve_def)
next
  fix a b c d
  assume m: "\<not> instanceof_MessageMedia (media options)"
    and c: "content = Arr [Contact a, Contact b, Contact c, Contact d]"
  have "map_id_serialized [Contact a, Contact b, Contact c, Contact d]
      = Inr [Str a, Str b, Str c, Str d]"
    using map_id_serialized_contacts [of "[a, b, c, d]"] by simp
  then show "sendMessage_resolve content options
      = Inr (Str [], io(''contactCardList'' := Arr [Str a, Str b, Str c, Str d]))"
    using assms m c by (simp add: sendMessage_resolve_def)
qed

theorem sendMessage_resolution_order_witness:
  "\<exists>io. sendMessage_internalOptions no_options = Inr io \<and>
     io ''parseVCards'' = Bool True \<and> io ''contactCardList'' = Undefined \<and>
     sendMessage_resolve
         (Arr [Contact ''1@c.us'', Contact ''2@c.us'', Contact ''3@c.us'', Contact ''4@c.us''])
         no_options
       = Inr (Str [], io(''contactCardList'' :=
                Arr [Str ''1@c.us'', Str ''2@c.us'', Str ''3@c.us'', Str ''4@c.us'']))"
proof -
  obtain io where io: "sendMessage_internalOptions no_options = Inr io"
    by (simp add: sendMessage_internalOptions_def no_options_def)
  have m: "\<not> instanceof_MessageMedia (media no_options)"
    by (simp add: no_options_def)
  have p: "io ''parseVCards'' = Bool True" "io ''contactCardList'' = Undefined"
    using io by (auto simp: sendMessage_internalOptions_def no_options_def)
  from sendMessage_resolution_order [OF io,
      of "Arr [Contact ''1@c.us'', Contact ''2@c.us'', Contact ''3@c.us'', Contact ''4@c.us'']"] m
  have "sendMessage_resolve
         (Arr [Contact ''1@c.us'', Contact ''2@c.us'', Contact ''3@c.us'', Contact ''4@c.us''])
         no_options
       = Inr (Str [], io(''contactCardList'' :=
                Arr [Str ''1@c.us'', Str ''2@c.us'', Str ''3@c.us'', Str ''4@c.us'']))"
    by blast
  with io p show ?thesis by blast
qed

section \<open>Properties of logging out\<close>

text \<open>
  C5 on the code. For every client with a session directory (a non-empty
  \<^verbatim>\<open>dataDir\<close>), after a successful remote logout \<^verbatim>\<open>logout\<close> calls the
  file system function with the directory as \<^verbatim>\<open>this\<close> and the options object
  as its only argument, the path: the call throws a TypeError, \<^verbatim>\<open>logout\<close>
  rejects and no path is removed.
\<close>

theorem logout_passes_options_as_path:
  assumes "truthy dataDir"
  shows "logout dataDir has_rmSync (Inr v) files
     = (Inl TypeError,
        [Remote_AppState_logout,
         Fs_call (if has_rmSync then fs_rmSync else fs_rmdirSync) dataDir
           [Obj [(''recursive'', Bool True)]]],
        files)"
  using assms by (simp add: logout_def fs_remove_def)

theorem logout_passes_options_as_path_witness:
  "truthy (Str ''/srv/bot/WWebJS/session-main'') \<and>
   logout (Str ''/srv/bot/WWebJS/session-main'') True (Inr Undefined) session_files
     = (Inl TypeError,
        [Remote_AppState_logout,
         Fs_call fs_rmSync (Str ''/srv/bot/WWebJS/session-main'')
           [Obj [(''recursive'', Bool True)]]],
        session_files) \<and>
   ''/srv/bot/WWebJS/session-main'' \<in> set session_files"
proof -
  have t: "truthy (Str ''/srv/bot/WWebJS/session-main'')" by simp
  from logout_passes_options_as_path [OF t, of True Undefined session_files] t
  show ?thesis by (simp add: session_files_def)
qed

text \<open>
  The call that the file system expects, with the directory as the path, removes the
  directory and its content.
\<close>

lemma fs_remove_session_directory:
  "fs_remove [Str ''/srv/bot/WWebJS/session-main'', Obj [(''recursive'', Bool True)]] session_files
     = Inr []"
  by (simp add: fs_remove_def options_recursive_def session_files_def)

section \<open>Properties of the initialization\<close>

lemma keeps_ret: "keeps_no_ready (ret x)"
  by (simp add: keeps_no_ready_def ret_def)

lemma keeps_throw: "keeps_no_ready (throw e)"
  by (simp add: keeps_no_ready_def throw_def)

lemma keeps_await: "keeps_no_ready (await env rt)"
  by (simp add: keeps_no_ready_def await_def no_ready_def)

lemma keeps_page_on: "keeps_no_ready (page_on name)"
  by (simp add: keeps_no_ready_def page_on_def no_ready_def)

lemma keeps_identifier: "keeps_no_ready (read_identifier env x)"
  by (simp add: keeps_no_ready_def read_identifier_def split: option.splits)

lemma keeps_fire:
  "(\<And>v. Emit (READY v) \<notin> set effs) \<Longrightarrow> keeps_no_ready (fire effs)"
  by (auto simp: keeps_no_ready_def fire_def no_ready_def)

lemma keeps_bnd:
  assumes "keeps_no_ready m" and "\<And>x. keeps_no_ready (f x)"
  shows "keeps_no_ready (bnd m f)"
  unfolding keeps_no_ready_def
proof (intro allI impI)
  fix run :: "step list"
  assume nr: "no_ready run"
  obtain r run' where m: "m run = (r, run')" by (cases "m run")
  from assms(1) nr m have nr': "no_ready run'"
    by (auto simp: keeps_no_ready_def dest: spec [of _ run])
  show "no_ready (snd (bnd m f run))"
  proof (cases r)
    case (Inl e)
    with m nr' show ?thesis by (simp add: bnd_def)
  next
    case (Inr x)
    from assms(2) [of x] nr' have "no_ready (snd (f x run'))"
      by (simp add: keeps_no_ready_def)
    with m Inr show ?thesis by (simp add: bnd_def)
  qed
qed

lemma keeps_if:
  "keeps_no_ready m \<Longrightarrow> keeps_no_ready n \<Longrightarrow> keeps_no_ready (if b then m else n)"
  by simp

lemma qrChanged_no_ready: "Emit (READY v) \<notin> set (snd (qrChanged N qr n))"
  by (simp add: qrChanged_def Let_def)

lemma qrCalls_no_ready: "Emit (READY v) \<notin> set (concat (snd (qrCalls N qrs n)))"
  by (induction qrs arbitrary: n) (auto simp: split_def Let_def qrChanged_no_ready)

lemmas keeps_intros =
  keeps_bnd keeps_if keeps_ret keeps_throw keeps_await keeps_page_on keeps_identifier

lemma keeps_launch: "keeps_no_ready (initialize_launch options env credentials)"
  unfolding initialize_launch_def by (intro keeps_intros)

lemma keeps_handshake: "keeps_no_ready (initialize_handshake options env)"
proof (cases "needAuthentication env")
  case (Inl err)
  then show ?thesis by (simp add: initialize_handshake_def keeps_throw)
next
  case (Inr need)
  have "keeps_no_ready (fire (concat (snd (qrCalls (qrMaxRetries options) (qr_tokens env) 0))))"
    by (rule keeps_fire) (rule qrCalls_no_ready)
  then show ?thesis
    using Inr unfolding initialize_handshake_def
    by (auto intro!: keeps_intros)
qed

lemma keeps_store: "keeps_no_ready (initialize_store options env)"
  unfolding initialize_store_def
  by (intro keeps_intros keeps_fire) (auto intro: keeps_intros split: sum.splits)

lemma keeps_register_events: "keeps_no_ready (initialize_register_events env)"
  unfolding initialize_register_events_def by (intro keeps_intros)

lemma bnd_throws:
  "(\<And>x run'. fst (f x run') \<noteq> Inr y) \<Longrightarrow> fst (bnd m f run) \<noteq> Inr y"
  by (auto simp: bnd_def split: prod.splits sum.splits)

lemma identifier_unbound:
  "global env x = None \<Longrightarrow> bnd (read_identifier env x) f run = (Inl (ReferenceError x), run)"
  by (simp add: bnd_def read_identifier_def)

text \<open>
  C4 on the code. On a host that does not bind the read_identifier
  \<^verbatim>\<open>loggedAndTimeouted\<close> globally, \<^verbatim>\<open>initialize\<close> never completes and
  never fires the \<open>ready\<close> event, whatever the options, the page and the handshake
  do: reading the read_identifier throws a ReferenceError before \<^verbatim>\<open>emit\<close> is called.
\<close>

theorem initialize_never_ready:
  assumes "global env ''loggedAndTimeouted'' = None"
  shows "fst (initialize options env credentials []) \<noteq> Inr () \<and>
         no_ready (snd (initialize options env credentials []))"
proof
  show "fst (initialize options env credentials []) \<noteq> Inr ()"
    unfolding initialize_def
    by (rule bnd_throws, rule bnd_throws, rule bnd_throws, rule bnd_throws)
      (simp add: identifier_unbound [OF assms])
next
  have "keeps_no_ready (bnd (read_identifier env ''loggedAndTimeouted'')
          (\<lambda>loggedAndTimeouted. bnd (fire [Emit (READY loggedAndTimeouted)])
             (\<lambda>_. page_on ''framenavigated'')))"
    by (simp add: keeps_no_ready_def identifier_unbound [OF assms])
  then have "keeps_no_ready (initialize options env credentials)"
    unfolding initialize_def
    by (intro keeps_bnd [OF keeps_launch] keeps_bnd [OF keeps_handshake]
        keeps_bnd [OF keeps_store] keeps_bnd [OF keeps_register_events])
  then show "no_ready (snd (initialize options env credentials []))"
    by (simp add: keeps_no_ready_def no_ready_def)
qed

theorem initialize_never_ready_witness:
  "global plain_environment ''loggedAndTimeouted'' = None \<and>
   fst (initialize default_options plain_environment False [])
     = Inl (ReferenceError ''loggedAndTimeouted'') \<and>
   no_ready (snd (initialize default_options plain_environment False []))"
proof -
  have g: "global plain_environment ''loggedAndTimeouted'' = None"
    by (simp add: plain_environment_def)
  have "fst (initialize default_options plain_environment False [])
      = Inl (ReferenceError ''loggedAndTimeouted'')"
    by (simp add: initialize_def initialize_launch_def initialize_handshake_def
        initialize_store_def initialize_register_events_def bnd_def await_def ret_def fire_def
        page_on_def read_identifier_def default_options_def plain_environment_def)
  with g initialize_never_ready [OF g, of default_options False] show ?thesis by simp
qed

text \<open>
  On a host that does bind the identifier, the same run completes and fires \<open>ready\<close>
  with the bound value as its payload.
\<close>

lemma initialize_with_global_binding:
  "fst (initialize default_options
          (plain_environment\<lparr>global := [''loggedAndTimeouted'' \<mapsto> Num 1]\<rparr>) False [])
     = Inr () \<and>
   Fire (Emit (READY (Num 1)))
     \<in> set (snd (initialize default_options
                   (plain_environment\<lparr>global := [''loggedAndTimeouted'' \<mapsto> Num 1]\<rparr>) False []))"
  by (simp add: initialize_def initialize_launch_def initialize_handshake_def
      initialize_store_def initialize_register_events_def bnd_def await_def ret_def fire_def
      page_on_def read_identifier_def default_options_def plain_environment_def)

end
